theory Spec2Isabelle
  imports Complex_Main
begin

section \<open>Numbers, vectors and the random source\<close>

text \<open>
  The program is JavaScript: \<^verbatim>\<open>GestureController.js\<close> holds the classes
  \<^verbatim>\<open>GestureController\<close> and \<^verbatim>\<open>ParticleTree\<close>, \<^verbatim>\<open>SceneManager.js\<close> the render loop, and
  the entry module wires the gesture events to the tree.

  JavaScript numbers are modelled as mathematical reals: \<open>+\<close>, \<open>-\<close>, \<open>*\<close>, \<open>/\<close>,
  \<^verbatim>\<open>Math.sqrt\<close>, \<^verbatim>\<open>Math.cbrt\<close>, \<^verbatim>\<open>Math.sin\<close>, \<^verbatim>\<open>Math.cos\<close> and \<^verbatim>\<open>Math.acos\<close> are the exact
  operations, so the rounding of IEEE doubles and of \<^verbatim>\<open>Float32Array\<close> stores is not
  part of the model. Every statement below is a statement about this exact arithmetic.

  \<^verbatim>\<open>Math.random()\<close> is ambient state. It is modelled as the infinite sequence of the
  values it is going to return: a call takes the head and leaves the tail.
\<close>

type_synonym rng = "nat \<Rightarrow> real"

definition random :: "rng \<Rightarrow> real \<times> rng" where
  "random g = (g 0, \<lambda>n. g (Suc n))"

text \<open>The sequence that is left after \<open>k\<close> calls of \<^verbatim>\<open>Math.random()\<close>.\<close>

definition after_draws :: "nat \<Rightarrow> rng \<Rightarrow> rng" where
  "after_draws k g = (\<lambda>n. g (n + k))"

text \<open>Every value of the sequence lies in \<open>[0, 1)\<close>, as \<^verbatim>\<open>Math.random()\<close> promises.\<close>

definition unit_range :: "rng \<Rightarrow> bool" where
  "unit_range g = (\<forall>n. 0 \<le> g n \<and> g n < 1)"

type_synonym vec3 = "real \<times> real \<times> real"

type_synonym rgb = "real \<times> real \<times> real"

text \<open>\<^verbatim>\<open>THREE.Vector3.add\<close>.\<close>

definition vadd :: "vec3 \<Rightarrow> vec3 \<Rightarrow> vec3" where
  "vadd a b = (case a of (ax, ay, az) \<Rightarrow> case b of (bx, by, bz) \<Rightarrow> (ax + bx, ay + by, az + bz))"

text \<open>
  Three consecutive stores \<^verbatim>\<open>a[i * 3] = x; a[i * 3 + 1] = y; a[i * 3 + 2] = z\<close>.
  A store beyond the end of a typed array is ignored, as \<open>list_update\<close> does.
\<close>

definition store3 :: "real list \<Rightarrow> nat \<Rightarrow> vec3 \<Rightarrow> real list" where
  "store3 a i p = (case p of (x, y, z) \<Rightarrow> a[i * 3 := x, i * 3 + 1 := y, i * 3 + 2 := z])"

text \<open>The three entries of particle \<open>i\<close> read back as a vector.\<close>

definition load3 :: "real list \<Rightarrow> nat \<Rightarrow> vec3" where
  "load3 a i = (a ! (i * 3), a ! (i * 3 + 1), a ! (i * 3 + 2))"

section \<open>The particle tree\<close>

datatype region = Trunk | Root | Leaves

datatype field_state = Formed | Dispersed

text \<open>
  A \<^verbatim>\<open>THREE.Points\<close> or \<^verbatim>\<open>THREE.LineSegments\<close> object of the scene; the only part of it
  the program touches is \<^verbatim>\<open>rotation.y\<close>.
\<close>

record Object3D =
  rotation_y :: real

record meteor =
  pos :: vec3
  velocity :: vec3
  length_m :: real
  color :: rgb

text \<open>
  The fields of \<^verbatim>\<open>ParticleTree\<close>. \<open>particles\<close> and \<open>meteors\<close> are \<^verbatim>\<open>null\<close> (\<open>None\<close>)
  until \<^verbatim>\<open>initParticles\<close> and \<^verbatim>\<open>initMeteors\<close> create them. \<open>treePositions\<close> is also the
  array of the geometry's \<^verbatim>\<open>position\<close> attribute (the attribute is built around the same
  array), \<open>meteorPositions\<close> and \<open>meteorColors\<close> are the arrays of the meteor
  geometry's attributes, and \<open>uTime\<close> is \<^verbatim>\<open>uniforms.uTime.value\<close>.
\<close>

record ParticleTree =
  particles :: "Object3D option"
  meteors :: "Object3D option"
  treeCount :: nat
  meteorCount :: nat
  treePositions :: "real list"
  treeTargetPositions :: "real list"
  treeColors :: "real list"
  treeSizes :: "real list"
  treeOpacities :: "real list"
  state :: field_state
  rotationSpeed :: real
  uTime :: real
  meteorData :: "meteor list"
  meteorPositions :: "real list"
  meteorColors :: "real list"

text \<open>
  \<^verbatim>\<open>THREE.Color\<close> belongs to the graphics library, not to this program: the colour a
  fresh \<^verbatim>\<open>new THREE.Color()\<close> holds, \<^verbatim>\<open>setHSL\<close> and \<^verbatim>\<open>setHex\<close> are parameters.
\<close>

record color_lib =
  new_Color :: rgb
  setHSL :: "real \<Rightarrow> real \<Rightarrow> real \<Rightarrow> rgb"
  setHex :: "nat \<Rightarrow> rgb"

subsection \<open>\<^verbatim>\<open>getBanyanPosition\<close> and \<^verbatim>\<open>getDispersedPosition\<close>\<close>

definition getBanyanPosition :: "ParticleTree \<Rightarrow> nat \<Rightarrow> rng \<Rightarrow> (vec3 \<times> region) \<times> rng" where
  "getBanyanPosition t i g0 =
    (let (r, g1) = random g0 in
     if real i < real (treeCount t) * 0.25 then
       (let height = 4.0;
            (u1, g2) = random g1;
            y = (u1 * height) - (height / 2) - 1.0;
            progress = (y + (height / 2) + 1.0) / height;
            (u2, g3) = random g2;
            radius = 0.3 + (1.0 - progress) * 1.5 + (u2 * 0.05);
            (u3, g4) = random g3;
            angle = u3 * pi * 2;
            x = cos angle * radius;
            z = sin angle * radius
        in (((x, y, z), Trunk), g4))
     else if real i < real (treeCount t) * 0.35 then
       (let dropHeight = 3.0;
            (u1, g2) = random g1;
            y = (u1 * dropHeight) - 2.0;
            (u2, g3) = random g2;
            radius = 1.2 + u2 * 2.5;
            (u3, g4) = random g3;
            angle = u3 * pi * 2;
            x = cos angle * radius;
            z = sin angle * radius
        in (((x, y, z), Root), g4))
     else
       (let (u1, g2) = random g1;
            theta = u1 * pi * 2;
            (u2, g3) = random g2;
            phi = arccos (2 * u2 - 1);
            (u3, g4) = random g3;
            r_sphere = 3.5 + u3 * 0.5;
            x = r_sphere * sin phi * cos theta;
            y = r_sphere * sin phi * sin theta;
            z = r_sphere * cos phi;
            y = \<bar>y\<bar> * 0.6 + 0.5;
            x = x * 1.5;
            z = z * 1.5
        in (((x, y, z), Leaves), g4)))"

definition getDispersedPosition :: "rng \<Rightarrow> vec3 \<times> rng" where
  "getDispersedPosition g0 =
    (let (u1, g1) = random g0;
         r = 10 * root 3 u1;
         (u2, g2) = random g1;
         theta = u2 * 2 * pi;
         (u3, g3) = random g2;
         phi = arccos (2 * u3 - 1)
     in ((r * sin phi * cos theta, r * sin phi * sin theta, r * cos phi), g3))"

subsection \<open>\<^verbatim>\<open>form\<close>, \<^verbatim>\<open>disperse\<close> and \<^verbatim>\<open>rotate\<close>\<close>

text \<open>The body of the loop of \<^verbatim>\<open>form\<close>, for one index.\<close>

definition form_step :: "nat \<Rightarrow> ParticleTree \<times> rng \<Rightarrow> ParticleTree \<times> rng" where
  "form_step i = (\<lambda>(t, g).
     (let ((p, ty), g') = getBanyanPosition t i g
      in (t\<lparr>treeTargetPositions := store3 (treeTargetPositions t) i p\<rparr>, g')))"

definition form :: "ParticleTree \<Rightarrow> rng \<Rightarrow> ParticleTree \<times> rng" where
  "form t g =
    (if state t = Formed then (t, g)
     else fold form_step [0..<treeCount t] (t\<lparr>state := Formed\<rparr>, g))"

text \<open>The body of the loop of \<^verbatim>\<open>disperse\<close>, for one index.\<close>

definition disperse_step :: "nat \<Rightarrow> ParticleTree \<times> rng \<Rightarrow> ParticleTree \<times> rng" where
  "disperse_step i = (\<lambda>(t, g).
     (let (p, g') = getDispersedPosition g
      in (t\<lparr>treeTargetPositions := store3 (treeTargetPositions t) i p\<rparr>, g')))"

definition disperse :: "ParticleTree \<Rightarrow> rng \<Rightarrow> ParticleTree \<times> rng" where
  "disperse t g =
    (if state t = Dispersed then (t, g)
     else fold disperse_step [0..<treeCount t] (t\<lparr>state := Dispersed\<rparr>, g))"

text \<open>\<^verbatim>\<open>rotate(normalizedX)\<close>; named \<open>rotate_tree\<close> because HOL has a \<open>rotate\<close> on lists.\<close>

definition rotate_tree :: "real \<Rightarrow> ParticleTree \<Rightarrow> ParticleTree" where
  "rotate_tree normalizedX t =
    (let speed = (normalizedX - 0.5) * 0.1
     in t\<lparr>rotationSpeed := speed\<rparr>)"

subsection \<open>\<^verbatim>\<open>resetMeteor\<close> and \<^verbatim>\<open>update\<close>\<close>

text \<open>
  \<^verbatim>\<open>resetMeteor(data, randomStart)\<close> overwrites all four fields of \<open>data\<close> and returns
  it, so the result does not depend on the old \<open>data\<close>; the caller stores the result
  where \<open>data\<close> lives. The colours are \<^verbatim>\<open>0xffffff\<close> and \<^verbatim>\<open>0xadd8e6\<close>.
\<close>

definition resetMeteor :: "color_lib \<Rightarrow> bool \<Rightarrow> rng \<Rightarrow> meteor \<times> rng" where
  "resetMeteor lib randomStart g0 =
    (let (u1, g1) = random g0;
         x = (if randomStart then u1 * 40 - 20 else 20 + u1 * 10);
         (u2, g2) = random g1;
         y = u2 * 20 - 10;
         (u3, g3) = random g2;
         z = u3 * 10 - 20;
         (u4, g4) = random g3;
         (u5, g5) = random g4;
         (u6, g6) = random g5;
         (r, g7) = random g6
     in (\<lparr>pos = (x, y, z),
          velocity = (- 0.3 - u4 * 0.3, - 0.05 - u5 * 0.1, 0),
          length_m = 3.0 + u6 * 6.0,
          color = (if r > 0.5 then setHex lib 16777215 else setHex lib 11393254)\<rparr>, g7))"

text \<open>The body of the position loop of \<^verbatim>\<open>update\<close>, for one array index.\<close>

definition blend_step :: "nat \<Rightarrow> ParticleTree \<Rightarrow> ParticleTree" where
  "blend_step i t =
    t\<lparr>treePositions := (treePositions t)
        [i := treePositions t ! i + (treeTargetPositions t ! i - treePositions t ! i) * 0.06]\<rparr>"

text \<open>The body of the meteor loop of \<^verbatim>\<open>update\<close>, for one meteor.\<close>

definition meteor_step :: "color_lib \<Rightarrow> nat \<Rightarrow> ParticleTree \<times> rng \<Rightarrow> ParticleTree \<times> rng" where
  "meteor_step lib i = (\<lambda>(t, g).
     (let data = meteorData t ! i;
          data = data\<lparr>pos := vadd (pos data) (velocity data)\<rparr>;
          (px, py, pz) = pos data;
          (vx, vy, vz) = velocity data;
          (cr, cg, cb) = color data;
          positions = (meteorPositions t)
            [i * 6 := px, i * 6 + 1 := py, i * 6 + 2 := pz,
             i * 6 + 3 := px - vx * length_m data,
             i * 6 + 4 := py - vy * length_m data,
             i * 6 + 5 := pz - vz * length_m data];
          colors = (meteorColors t)
            [i * 6 := cr, i * 6 + 1 := cg, i * 6 + 2 := cb,
             i * 6 + 3 := 0, i * 6 + 4 := 0, i * 6 + 5 := 0];
          (data, g) = (if px < - 30 then resetMeteor lib False g else (data, g))
      in (t\<lparr>meteorData := (meteorData t)[i := data],
            meteorPositions := positions,
            meteorColors := colors\<rparr>, g)))"

text \<open>
  \<^verbatim>\<open>update()\<close>. The \<^verbatim>\<open>needsUpdate\<close> flags only tell the renderer to upload the arrays
  again and are left out.
\<close>

definition update :: "color_lib \<Rightarrow> ParticleTree \<Rightarrow> rng \<Rightarrow> ParticleTree \<times> rng" where
  "update lib t g =
    (let t = t\<lparr>uTime := uTime t + 0.01\<rparr>;
         t = fold blend_step [0..<treeCount t * 3] t;
         t = (case particles t of
                None \<Rightarrow> t
              | Some p \<Rightarrow>
                  t\<lparr>particles := Some (p\<lparr>rotation_y := rotation_y p + rotationSpeed t\<rparr>),
                    rotationSpeed := rotationSpeed t * 0.96\<rparr>)
     in case meteors t of
          None \<Rightarrow> (t, g)
        | Some m \<Rightarrow> fold (meteor_step lib) [0..<meteorCount t] (t, g))"

text \<open>\<open>n\<close> animation frames in a row, with no gesture event between them.\<close>

fun updates :: "color_lib \<Rightarrow> nat \<Rightarrow> ParticleTree \<Rightarrow> rng \<Rightarrow> ParticleTree \<times> rng" where
  "updates lib 0 t g = (t, g)"
| "updates lib (Suc n) t g = (case updates lib n t g of (t', g') \<Rightarrow> update lib t' g')"

subsection \<open>Construction\<close>

text \<open>
  Building the geometry attributes, the shader material and the scene objects touches
  none of the fields above, except that \<open>particles\<close> and \<open>meteors\<close> stop being \<^verbatim>\<open>null\<close>;
  \<^verbatim>\<open>uniforms.uPixelRatio\<close> is only read by the shader. These parts are left out.

  The body of the loop of \<^verbatim>\<open>initParticles\<close> follows; \<open>color0\<close> is the one shared colour
  object as the previous round left it, and every branch on the region overwrites it.
\<close>

definition initParticles_step ::
  "color_lib \<Rightarrow> nat \<Rightarrow> ParticleTree \<times> rgb \<times> rng \<Rightarrow> ParticleTree \<times> rgb \<times> rng" where
  "initParticles_step lib i = (\<lambda>(t, color0, g0).
     (let ((p, ty), g1) = getBanyanPosition t i g0;
          t = t\<lparr>treePositions := store3 (treePositions t) i p\<rparr>;
          t = t\<lparr>treeTargetPositions := store3 (treeTargetPositions t) i p\<rparr>;
          (col, size, opacity, g2) =
            (case ty of
               Trunk \<Rightarrow>
                 (let (r, g) = random g1 in
                  if r > 0.97 then (setHSL lib 0.08 0.7 0.6, 2.5, 0.9, g)
                  else (let (a, g) = random g; (b, g) = random g
                        in (setHSL lib 0.06 0.4 (0.15 + a * 0.25), 0.8 + b * 0.5, 0.9, g)))
             | Root \<Rightarrow>
                 (let (a, g) = random g1
                  in (setHSL lib 0.08 0.3 (0.35 + a * 0.15), 0.7, 0.7, g))
             | Leaves \<Rightarrow>
                 (let (r, g) = random g1 in
                  if r > 0.85 then (setHex lib 16777215, 2.0, 1.0, g)
                  else if r > 0.65 then
                    (let (a, g) = random g in (setHSL lib 0.89 1.0 0.85, 1.5 + a * 0.5, 0.95, g))
                  else if r > 0.35 then
                    (let (a, g) = random g in (setHSL lib 0.86 0.9 0.75, 1.3 + a * 0.5, 0.9, g))
                  else
                    (let (a, g) = random g in (setHSL lib 0.81 0.8 0.70, 1.2 + a, 0.85, g))))
      in (t\<lparr>treeColors := store3 (treeColors t) i col,
            treeSizes := (treeSizes t)[i := size],
            treeOpacities := (treeOpacities t)[i := opacity]\<rparr>, col, g2)))"

definition initParticles :: "color_lib \<Rightarrow> ParticleTree \<Rightarrow> rng \<Rightarrow> ParticleTree \<times> rng" where
  "initParticles lib t g =
    (let (t, col, g) = fold (initParticles_step lib) [0..<treeCount t] (t, new_Color lib, g)
     in (t\<lparr>particles := Some \<lparr>rotation_y = 0\<rparr>\<rparr>, g))"

definition initMeteors_step :: "color_lib \<Rightarrow> nat \<Rightarrow> ParticleTree \<times> rng \<Rightarrow> ParticleTree \<times> rng" where
  "initMeteors_step lib i = (\<lambda>(t, g).
     (let (data, g) = resetMeteor lib True g
      in (t\<lparr>meteorData := meteorData t @ [data]\<rparr>, g)))"

definition initMeteors :: "color_lib \<Rightarrow> ParticleTree \<Rightarrow> rng \<Rightarrow> ParticleTree \<times> rng" where
  "initMeteors lib t g =
    (let t = t\<lparr>meteorData := []\<rparr>;
         (t, g) = fold (initMeteors_step lib) [0..<meteorCount t] (t, g)
     in (t\<lparr>meteorPositions := replicate (meteorCount t * 2 * 3) 0,
           meteorColors := replicate (meteorCount t * 2 * 3) 0,
           meteors := Some \<lparr>rotation_y = 0\<rparr>\<rparr>, g))"

text \<open>The constructor of \<^verbatim>\<open>ParticleTree\<close>: a fresh typed array holds zeros.\<close>

definition new_ParticleTree :: "color_lib \<Rightarrow> rng \<Rightarrow> ParticleTree \<times> rng" where
  "new_ParticleTree lib g =
    (let t = \<lparr>particles = None, meteors = None,
              treeCount = 20000, meteorCount = 100,
              treePositions = replicate (20000 * 3) 0,
              treeTargetPositions = replicate (20000 * 3) 0,
              treeColors = replicate (20000 * 3) 0,
              treeSizes = replicate 20000 0,
              treeOpacities = replicate 20000 0,
              state = Formed, rotationSpeed = 0, uTime = 0,
              meteorData = [], meteorPositions = [], meteorColors = []\<rparr>;
         (t, g) = initParticles lib t g
     in initMeteors lib t g)"

text \<open>
  What construction establishes and every command keeps: the scene objects exist, the
  position and target arrays hold three entries per particle, and there is one record
  per meteor. \<^verbatim>\<open>update\<close> reads the arrays only inside these bounds.
\<close>

definition well_formed :: "ParticleTree \<Rightarrow> bool" where
  "well_formed t =
    (particles t \<noteq> None \<and> meteors t \<noteq> None \<and>
     length (treePositions t) = treeCount t * 3 \<and>
     length (treeTargetPositions t) = treeCount t * 3 \<and>
     length (meteorData t) = meteorCount t)"

subsection \<open>The calls the host makes\<close>

text \<open>
  The entry module calls \<^verbatim>\<open>form()\<close>, \<^verbatim>\<open>disperse()\<close> and \<^verbatim>\<open>rotate(x)\<close> from the gesture
  callbacks, and the render loop calls \<^verbatim>\<open>update()\<close> once per frame.
\<close>

datatype command = Form | Disperse | Rotate real | Update

definition run_command :: "color_lib \<Rightarrow> command \<Rightarrow> ParticleTree \<times> rng \<Rightarrow> ParticleTree \<times> rng" where
  "run_command lib c = (\<lambda>(t, g).
     case c of
       Form \<Rightarrow> form t g
     | Disperse \<Rightarrow> disperse t g
     | Rotate x \<Rightarrow> (rotate_tree x t, g)
     | Update \<Rightarrow> update lib t g)"

section \<open>The gesture controller\<close>

datatype js_error = TypeError

text \<open>
  The listeners object maps an event name to the list of its callbacks. A callback
  takes the event's data (\<open>None\<close> for \<^verbatim>\<open>undefined\<close>) and acts on the world \<open>'w\<close> it
  closes over.
\<close>

type_synonym 'w callback = "real option \<Rightarrow> 'w \<Rightarrow> 'w"

type_synonym 'w listeners = "string \<rightharpoonup> 'w callback list"

text \<open>The listeners a new \<^verbatim>\<open>GestureController\<close> starts with.\<close>

definition new_listeners :: "'w listeners" where
  "new_listeners = [''fist'' \<mapsto> [], ''open'' \<mapsto> [], ''move'' \<mapsto> []]"

definition on :: "'w listeners \<Rightarrow> string \<Rightarrow> 'w callback \<Rightarrow> 'w listeners" where
  "on ls event cb =
    (case ls event of None \<Rightarrow> ls | Some cbs \<Rightarrow> ls(event \<mapsto> cbs @ [cb]))"

definition emit :: "'w listeners \<Rightarrow> string \<Rightarrow> real option \<Rightarrow> 'w \<Rightarrow> 'w" where
  "emit ls event data w =
    (case ls event of None \<Rightarrow> w | Some cbs \<Rightarrow> fold (\<lambda>cb. cb data) cbs w)"

text \<open>
  \<^verbatim>\<open>processGestures(landmarks)\<close>. A landmark is an object with fields \<^verbatim>\<open>x\<close>, \<^verbatim>\<open>y\<close>, \<^verbatim>\<open>z\<close>,
  here a triple. Reading index 0, 8, 12, 16 or 20 of a shorter array gives \<^verbatim>\<open>undefined\<close>,
  and the first field read of it, inside the distance loop and so before any event is
  emitted, throws a \<^verbatim>\<open>TypeError\<close>.
\<close>

definition processGestures :: "'w listeners \<Rightarrow> vec3 list \<Rightarrow> 'w \<Rightarrow> js_error + 'w" where
  "processGestures ls landmarks w =
    (if length landmarks \<le> 20 then Inl TypeError
     else
       (let wrist = landmarks ! 0;
            tips = map (\<lambda>i. landmarks ! i) [8, 12, 16, 20];
            totalDist = fold (\<lambda>tip total.
                (case tip of (tx, ty, tz) \<Rightarrow> case wrist of (wx, wy, wz) \<Rightarrow>
                   total + sqrt ((tx - wx)\<^sup>2 + (ty - wy)\<^sup>2 + (tz - wz)\<^sup>2))) tips 0;
            avgDist = totalDist / 4;
            w = (if avgDist < 0.2 then emit ls ''fist'' None w
                 else if avgDist > 0.3 then emit ls ''open'' None w
                 else w)
        in Inr (emit ls ''move'' (Some (fst wrist)) w)))"

text \<open>
  One turn of \<^verbatim>\<open>predictWebcam\<close>: \<open>currentTime\<close> is \<^verbatim>\<open>video.currentTime\<close> and \<open>results\<close>
  the \<^verbatim>\<open>landmarks\<close> the hand detector returns for the frame, one list per detected hand.
  The detector is an external library and is not called when the frame is not new.
\<close>

definition predictWebcam ::
  "'w listeners \<Rightarrow> real \<Rightarrow> vec3 list list \<Rightarrow> real \<times> 'w \<Rightarrow> js_error + (real \<times> 'w)" where
  "predictWebcam ls currentTime results = (\<lambda>(lastVideoTime, w).
     if lastVideoTime \<noteq> currentTime then
       (if length results > 0 then
          (case processGestures ls (results ! 0) w of
             Inl e \<Rightarrow> Inl e
           | Inr w' \<Rightarrow> Inr (currentTime, w'))
        else Inr (currentTime, w))
     else Inr (lastVideoTime, w))"

text \<open>
  \<^verbatim>\<open>initialize()\<close> ends with a first call of \<^verbatim>\<open>predictWebcam()\<close>. The controller is then
  as its constructor left it: \<^verbatim>\<open>lastVideoTime\<close> is \<open>-1\<close> and the three listener lists are
  empty, since the entry module registers its callbacks only after \<^verbatim>\<open>initialize()\<close> has
  returned. Loading the detector and opening the camera are external and left out; an
  error there ends the program before any frame.
\<close>

definition initialize ::
  "real \<Rightarrow> vec3 list list \<Rightarrow> 'w \<Rightarrow> js_error + (real \<times> 'w)" where
  "initialize currentTime results w =
    predictWebcam new_listeners currentTime results (- 1, w)"

text \<open>
  The wiring of the entry module: \<^verbatim>\<open>fist\<close> calls \<^verbatim>\<open>form()\<close>, \<^verbatim>\<open>open\<close> calls
  \<^verbatim>\<open>disperse()\<close>, \<^verbatim>\<open>move\<close> calls \<^verbatim>\<open>rotate(x)\<close>. The world is the tree together with the
  random source. \<^verbatim>\<open>rotate(undefined)\<close> would store \<^verbatim>\<open>NaN\<close>, which the reals do not have;
  the model leaves that speed unspecified.
\<close>

definition main_listeners :: "(ParticleTree \<times> rng) listeners" where
  "main_listeners =
    on (on (on new_listeners
      ''fist'' (\<lambda>d (t, g). form t g))
      ''open'' (\<lambda>d (t, g). disperse t g))
      ''move'' (\<lambda>d (t, g). (case d of Some x \<Rightarrow> rotate_tree x t
                                      | None \<Rightarrow> t\<lparr>rotationSpeed := undefined\<rparr>, g))"

text \<open>Listeners that only record what is emitted, in order.\<close>

definition log_listeners :: "((string \<times> real option) list) listeners" where
  "log_listeners =
    on (on (on new_listeners
      ''fist'' (\<lambda>d w. w @ [(''fist'', d)]))
      ''open'' (\<lambda>d w. w @ [(''open'', d)]))
      ''move'' (\<lambda>d w. w @ [(''move'', d)])"

section \<open>Auxiliary definitions for the proofs\<close>

text \<open>
  The target array after the first \<open>n\<close> rounds of the loop of \<^verbatim>\<open>form\<close>: round \<open>k\<close> calls
  \<^verbatim>\<open>getBanyanPosition(k)\<close> on the random values that \<open>4 * k\<close> earlier draws have left.
\<close>

primrec banyan_targets :: "ParticleTree \<Rightarrow> rng \<Rightarrow> nat \<Rightarrow> real list" where
  "banyan_targets t g 0 = treeTargetPositions t"
| "banyan_targets t g (Suc n) =
     store3 (banyan_targets t g n) n (fst (fst (getBanyanPosition t n (after_draws (4 * n) g))))"

text \<open>The same for \<^verbatim>\<open>disperse\<close>, whose rounds draw three values each.\<close>

primrec dispersed_targets :: "real list \<Rightarrow> rng \<Rightarrow> nat \<Rightarrow> real list" where
  "dispersed_targets a g 0 = a"
| "dispersed_targets a g (Suc n) =
     store3 (dispersed_targets a g n) n (fst (getDispersedPosition (after_draws (3 * n) g)))"

text \<open>
  The position array after the first \<open>n\<close> rounds of the position loop of \<^verbatim>\<open>update\<close>,
  from the positions \<open>c\<close> and the targets \<open>tg\<close>.
\<close>

primrec blended :: "real list \<Rightarrow> real list \<Rightarrow> nat \<Rightarrow> real list" where
  "blended c tg 0 = c"
| "blended c tg (Suc n) =
     (blended c tg n)[n := blended c tg n ! n + (tg ! n - blended c tg n ! n) * 0.06]"

text \<open>The tree without the three meteor fields, which the particle commands never read.\<close>

definition tree_part :: "ParticleTree \<Rightarrow> ParticleTree" where
  "tree_part t = t\<lparr>meteorData := [], meteorPositions := [], meteorColors := []\<rparr>"

text \<open>The tree between the rotation block and the meteor loop of \<^verbatim>\<open>update\<close>.\<close>

definition update_particles :: "ParticleTree \<Rightarrow> ParticleTree" where
  "update_particles t =
    (let t1 = t\<lparr>uTime := uTime t + 0.01,
                treePositions := blended (treePositions t) (treeTargetPositions t) (treeCount t * 3)\<rparr>
     in case particles t of
          None \<Rightarrow> t1
        | Some p \<Rightarrow>
            t1\<lparr>particles := Some (p\<lparr>rotation_y := rotation_y p + rotationSpeed t\<rparr>),
               rotationSpeed := rotationSpeed t * 0.96\<rparr>)"

text \<open>Entry \<open>i\<close> of the position array after \<open>n\<close> frames.\<close>

definition position_after :: "color_lib \<Rightarrow> nat \<Rightarrow> ParticleTree \<Rightarrow> rng \<Rightarrow> nat \<Rightarrow> real" where
  "position_after lib n t g i = treePositions (fst (updates lib n t g)) ! i"

text \<open>The rotation speed after \<open>n\<close> frames.\<close>

definition speed_after :: "color_lib \<Rightarrow> nat \<Rightarrow> ParticleTree \<Rightarrow> rng \<Rightarrow> real" where
  "speed_after lib n t g = rotationSpeed (fst (updates lib n t g))"

subsection \<open>Concrete inputs\<close>

text \<open>
  A colour library, a random source that always returns 0, and a tree of one particle
  (at the origin, heading for \<open>(10, 10, 10)\<close>) and one meteor.
\<close>

definition example_lib :: color_lib where
  "example_lib = \<lparr>new_Color = (1, 1, 1), setHSL = (\<lambda>h s l. (l, l, l)), setHex = (\<lambda>n. (1, 1, 1))\<rparr>"

definition zero_rng :: rng where
  "zero_rng = (\<lambda>n. 0)"

definition example_tree :: ParticleTree where
  "example_tree =
    \<lparr>particles = Some \<lparr>rotation_y = 0\<rparr>, meteors = Some \<lparr>rotation_y = 0\<rparr>,
     treeCount = 1, meteorCount = 1,
     treePositions = [0, 0, 0],
     treeTargetPositions = [10, 10, 10],
     treeColors = [1, 1, 1],
     treeSizes = [1],
     treeOpacities = [1],
     state = Dispersed, rotationSpeed = 0, uTime = 0,
     meteorData = [\<lparr>pos = (0, 0, 0), velocity = (- 0.3, - 0.05, 0), length_m = 3, color = (1, 1, 1)\<rparr>],
     meteorPositions = [0, 0, 0, 0, 0, 0],
     meteorColors = [0, 0, 0, 0, 0, 0]\<rparr>"

text \<open>
  What the loop of \<^verbatim>\<open>initParticles\<close> keeps, relative to the tree \<open>t0\<close> it starts from:
  positions and targets are the same array contents, and the fields it does not write.
\<close>

definition init_inv :: "ParticleTree \<Rightarrow> ParticleTree \<Rightarrow> bool" where
  "init_inv t0 t =
    (treePositions t = treeTargetPositions t \<and>
     length (treePositions t) = length (treePositions t0) \<and>
     state t = state t0 \<and> treeCount t = treeCount t0 \<and> meteorCount t = meteorCount t0 \<and>
     rotationSpeed t = rotationSpeed t0 \<and> meteors t = meteors t0 \<and>
     meteorData t = meteorData t0)"

text \<open>
  The average distance of the four finger tips (landmarks 8, 12, 16, 20) from the wrist
  (landmark 0), written out as a sum.
\<close>

definition tip_distance :: "vec3 \<Rightarrow> vec3 \<Rightarrow> real" where
  "tip_distance tip wrist =
    (case tip of (tx, ty, tz) \<Rightarrow> case wrist of (wx, wy, wz) \<Rightarrow>
       sqrt ((tx - wx)\<^sup>2 + (ty - wy)\<^sup>2 + (tz - wz)\<^sup>2))"

definition avgDist :: "vec3 list \<Rightarrow> real" where
  "avgDist l =
    (tip_distance (l ! 8) (l ! 0) + tip_distance (l ! 12) (l ! 0) +
     tip_distance (l ! 16) (l ! 0) + tip_distance (l ! 20) (l ! 0)) / 4"

text \<open>
  A hand whose 21 landmarks all sit at \<open>(1, 0.5, 0)\<close>: a closed fist at the right edge of
  the frame.
\<close>

definition right_hand :: "vec3 list" where
  "right_hand = replicate 21 (1, 0.5, 0)"

section \<open>Basic facts\<close>

lemma after_draws_0: "after_draws 0 g = g"
  by (simp add: after_draws_def)

lemma after_draws_add: "after_draws a (after_draws b g) = after_draws (a + b) g"
  by (simp add: after_draws_def add.assoc)

lemma length_store3: "length (store3 a i p) = length a"
  by (cases p) (simp add: store3_def)

lemma load3_store3_same: "i * 3 + 2 < length a \<Longrightarrow> load3 (store3 a i p) i = p"
  by (cases p) (simp add: store3_def load3_def)

lemma load3_store3_other: "i \<noteq> j \<Longrightarrow> load3 (store3 a j p) i = load3 a i"
  by (cases p) (auto simp add: store3_def load3_def)

subsection \<open>The generators\<close>

lemma getBanyanPosition_rng: "snd (getBanyanPosition t i g) = after_draws 4 g"
  by (simp add: getBanyanPosition_def random_def after_draws_def Let_def eval_nat_numeral)

lemma getBanyanPosition_treeCount:
  "treeCount t' = treeCount t \<Longrightarrow> getBanyanPosition t' i g = getBanyanPosition t i g"
  by (simp only: getBanyanPosition_def)

lemma getDispersedPosition_rng: "snd (getDispersedPosition g) = after_draws 3 g"
  by (simp add: getDispersedPosition_def random_def after_draws_def Let_def eval_nat_numeral)

subsection \<open>The loop of \<^verbatim>\<open>form\<close>\<close>

lemma form_step_eq:
  "form_step i (t, g) =
    (t\<lparr>treeTargetPositions :=
         store3 (treeTargetPositions t) i (fst (fst (getBanyanPosition t i g)))\<rparr>,
     after_draws 4 g)"
  using getBanyanPosition_rng[of t i g]
  by (cases "getBanyanPosition t i g") (auto simp add: form_step_def Let_def)

lemma form_loop:
  "fold form_step [0..<n] (t, g) =
    (t\<lparr>treeTargetPositions := banyan_targets t g n\<rparr>, after_draws (4 * n) g)"
proof (induction n)
  case 0
  show ?case by (simp add: after_draws_0)
next
  case (Suc n)
  have "getBanyanPosition (t\<lparr>treeTargetPositions := banyan_targets t g n\<rparr>) n
          = getBanyanPosition t n"
    by (rule ext, rule getBanyanPosition_treeCount) simp
  with Suc show ?case
    by (simp add: form_step_eq after_draws_add)
qed

lemma length_banyan_targets: "length (banyan_targets t g n) = length (treeTargetPositions t)"
  by (induction n) (simp_all add: length_store3)

lemma load3_banyan_targets:
  "i < n \<Longrightarrow> i * 3 + 2 < length (treeTargetPositions t) \<Longrightarrow>
   load3 (banyan_targets t g n) i = fst (fst (getBanyanPosition t i (after_draws (4 * i) g)))"
proof (induction n)
  case 0
  then show ?case by simp
next
  case (Suc n)
  show ?case
  proof (cases "i = n")
    case True
    with Suc.prems show ?thesis
      by (simp add: load3_store3_same length_banyan_targets)
  next
    case False
    with Suc show ?thesis
      by (simp add: load3_store3_other)
  qed
qed

subsection \<open>The loop of \<^verbatim>\<open>disperse\<close>\<close>

lemma disperse_step_eq:
  "disperse_step i (t, g) =
    (t\<lparr>treeTargetPositions :=
         store3 (treeTargetPositions t) i (fst (getDispersedPosition g))\<rparr>,
     after_draws 3 g)"
  using getDispersedPosition_rng[of g]
  by (cases "getDispersedPosition g") (auto simp add: disperse_step_def Let_def)

lemma disperse_loop:
  "fold disperse_step [0..<n] (t, g) =
    (t\<lparr>treeTargetPositions := dispersed_targets (treeTargetPositions t) g n\<rparr>,
     after_draws (3 * n) g)"
  by (induction n) (simp_all add: after_draws_0 disperse_step_eq after_draws_add)

lemma length_dispersed_targets: "length (dispersed_targets a g n) = length a"
  by (induction n) (simp_all add: length_store3)

lemma load3_dispersed_targets:
  "i < n \<Longrightarrow> i * 3 + 2 < length a \<Longrightarrow>
   load3 (dispersed_targets a g n) i = fst (getDispersedPosition (after_draws (3 * i) g))"
proof (induction n)
  case 0
  then show ?case by simp
next
  case (Suc n)
  show ?case
  proof (cases "i = n")
    case True
    with Suc.prems show ?thesis
      by (simp add: load3_store3_same length_dispersed_targets)
  next
    case False
    with Suc show ?thesis
      by (simp add: load3_store3_other)
  qed
qed

lemma getDispersedPosition_value:
  "fst (getDispersedPosition g) =
    (10 * root 3 (g 0) * sin (arccos (2 * g 2 - 1)) * cos (g 1 * 2 * pi),
     10 * root 3 (g 0) * sin (arccos (2 * g 2 - 1)) * sin (g 1 * 2 * pi),
     10 * root 3 (g 0) * cos (arccos (2 * g 2 - 1)))"
  by (simp add: getDispersedPosition_def random_def Let_def eval_nat_numeral)

lemma sphere_norm:
  fixes r :: real
  shows "(r * sin p * cos a)\<^sup>2 + (r * sin p * sin a)\<^sup>2 + (r * cos p)\<^sup>2 = r\<^sup>2"
proof -
  have "(r * sin p * cos a)\<^sup>2 + (r * sin p * sin a)\<^sup>2 + (r * cos p)\<^sup>2
      = r\<^sup>2 * (sin p)\<^sup>2 * (cos a)\<^sup>2 + r\<^sup>2 * (sin p)\<^sup>2 * (sin a)\<^sup>2 + r\<^sup>2 * (cos p)\<^sup>2"
    by (simp only: power_mult_distrib)
  also have "\<dots> = r\<^sup>2 * (sin p)\<^sup>2 * ((cos a)\<^sup>2 + (sin a)\<^sup>2) + r\<^sup>2 * (cos p)\<^sup>2"
    by (simp only: distrib_left)
  also have "\<dots> = r\<^sup>2 * ((sin p)\<^sup>2 + (cos p)\<^sup>2)"
    by (simp only: sin_cos_squared_add2 mult_1_right distrib_left)
  also have "\<dots> = r\<^sup>2"
    by (simp only: sin_cos_squared_add mult_1_right)
  finally show ?thesis .
qed

lemma root3_unit: "0 \<le> u \<Longrightarrow> u < 1 \<Longrightarrow> 0 \<le> root 3 u \<and> root 3 u < 1"
  by (simp add: real_root_ge_zero)

subsection \<open>The loops of \<^verbatim>\<open>update\<close>\<close>

lemma blend_loop:
  "fold blend_step [0..<n] t =
    t\<lparr>treePositions := blended (treePositions t) (treeTargetPositions t) n\<rparr>"
  by (induction n) (simp_all add: blend_step_def)

lemma length_blended: "length (blended c tg n) = length c"
  by (induction n) simp_all

lemma nth_blended:
  "n \<le> length c \<Longrightarrow>
   blended c tg n ! i = (if i < n then c ! i + (tg ! i - c ! i) * 0.06 else c ! i)"
proof (induction n arbitrary: i)
  case 0
  show ?case by simp
next
  case (Suc n)
  have nle: "n \<le> length c"
    using Suc.prems by simp
  have IH: "blended c tg n ! j = (if j < n then c ! j + (tg ! j - c ! j) * 0.06 else c ! j)"
    for j
    by (rule Suc.IH[OF nle])
  have len: "n < length (blended c tg n)"
    using Suc.prems by (simp add: length_blended)
  show ?case
  proof (cases "i = n")
    case True
    with len show ?thesis by (simp add: IH)
  next
    case False
    then show ?thesis by (auto simp add: IH)
  qed
qed

lemma meteor_step_tree_part: "tree_part (fst (meteor_step lib i s)) = tree_part (fst s)"
  by (cases s) (simp add: meteor_step_def tree_part_def Let_def split: prod.splits)

lemma meteor_step_length:
  "length (meteorData (fst (meteor_step lib i s))) = length (meteorData (fst s))"
  by (cases s) (simp add: meteor_step_def Let_def split: prod.splits)

lemma meteor_loop_tree_part:
  "tree_part (fst (fold (meteor_step lib) xs s)) = tree_part (fst s)"
  by (induction xs arbitrary: s) (simp_all add: meteor_step_tree_part)

lemma meteor_loop_length:
  "length (meteorData (fst (fold (meteor_step lib) xs s))) = length (meteorData (fst s))"
  by (induction xs arbitrary: s) (simp_all add: meteor_step_length)

lemma update_eq:
  "update lib t g =
    (case meteors t of
       None \<Rightarrow> (update_particles t, g)
     | Some m \<Rightarrow> fold (meteor_step lib) [0..<meteorCount t] (update_particles t, g))"
  by (cases "particles t"; cases "meteors t")
    (simp_all add: update_def update_particles_def blend_loop Let_def)

lemma update_tree_part: "tree_part (fst (update lib t g)) = tree_part (update_particles t)"
  by (simp add: update_eq meteor_loop_tree_part split: option.splits)

lemma update_meteorData_length:
  "length (meteorData (fst (update lib t g))) = length (meteorData t)"
  by (simp add: update_eq meteor_loop_length update_particles_def Let_def split: option.splits)

lemma update_via_tree_part:
  assumes "\<And>s. f (tree_part s) = f s"
  shows "f (fst (update lib t g)) = f (update_particles t)"
proof -
  have "f (fst (update lib t g)) = f (tree_part (fst (update lib t g)))"
    by (simp only: assms)
  also have "\<dots> = f (tree_part (update_particles t))"
    by (simp only: update_tree_part)
  also have "\<dots> = f (update_particles t)"
    by (simp only: assms)
  finally show ?thesis .
qed

lemma update_treePositions:
  "treePositions (fst (update lib t g)) =
     blended (treePositions t) (treeTargetPositions t) (treeCount t * 3)"
  by (subst update_via_tree_part)
     (simp_all add: tree_part_def update_particles_def Let_def split: option.splits)

lemma update_treeTargetPositions:
  "treeTargetPositions (fst (update lib t g)) = treeTargetPositions t"
  by (subst update_via_tree_part)
     (simp_all add: tree_part_def update_particles_def Let_def split: option.splits)

lemma update_treeCount: "treeCount (fst (update lib t g)) = treeCount t"
  by (subst update_via_tree_part)
     (simp_all add: tree_part_def update_particles_def Let_def split: option.splits)

lemma update_meteorCount: "meteorCount (fst (update lib t g)) = meteorCount t"
  by (subst update_via_tree_part)
     (simp_all add: tree_part_def update_particles_def Let_def split: option.splits)

lemma update_state: "state (fst (update lib t g)) = state t"
  by (subst update_via_tree_part)
     (simp_all add: tree_part_def update_particles_def Let_def split: option.splits)

lemma update_meteors: "meteors (fst (update lib t g)) = meteors t"
  by (subst update_via_tree_part)
     (simp_all add: tree_part_def update_particles_def Let_def split: option.splits)

lemma update_treeColors: "treeColors (fst (update lib t g)) = treeColors t"
  by (subst update_via_tree_part)
     (simp_all add: tree_part_def update_particles_def Let_def split: option.splits)

lemma update_treeSizes: "treeSizes (fst (update lib t g)) = treeSizes t"
  by (subst update_via_tree_part)
     (simp_all add: tree_part_def update_particles_def Let_def split: option.splits)

lemma update_treeOpacities: "treeOpacities (fst (update lib t g)) = treeOpacities t"
  by (subst update_via_tree_part)
     (simp_all add: tree_part_def update_particles_def Let_def split: option.splits)

lemma update_particles_Some:
  "particles t = Some p \<Longrightarrow>
   particles (fst (update lib t g)) = Some (p\<lparr>rotation_y := rotation_y p + rotationSpeed t\<rparr>)"
  by (subst update_via_tree_part)
     (simp_all add: tree_part_def update_particles_def Let_def split: option.splits)

lemma update_rotationSpeed:
  "particles t \<noteq> None \<Longrightarrow> rotationSpeed (fst (update lib t g)) = rotationSpeed t * 0.96"
  by (subst update_via_tree_part)
     (auto simp add: tree_part_def update_particles_def Let_def split: option.splits)

lemma well_formed_update: "well_formed t \<Longrightarrow> well_formed (fst (update lib t g))"
  unfolding well_formed_def
  by (auto simp add: update_treePositions update_treeTargetPositions update_treeCount
      update_meteorCount update_meteors update_meteorData_length length_blended
      update_particles_Some)

lemma updates_Suc:
  "updates lib (Suc n) t g = update lib (fst (updates lib n t g)) (snd (updates lib n t g))"
  by (simp add: case_prod_beta)

lemma updates_treeTargetPositions:
  "treeTargetPositions (fst (updates lib n t g)) = treeTargetPositions t"
  by (induction n) (simp_all only: updates_Suc update_treeTargetPositions updates.simps fst_conv)

lemma updates_treeCount: "treeCount (fst (updates lib n t g)) = treeCount t"
  by (induction n) (simp_all only: updates_Suc update_treeCount updates.simps fst_conv)

lemma well_formed_updates: "well_formed t \<Longrightarrow> well_formed (fst (updates lib n t g))"
  by (induction n) (simp_all only: updates_Suc well_formed_update updates.simps fst_conv)

lemma updates_rotationSpeed:
  "well_formed t \<Longrightarrow> rotationSpeed (fst (updates lib n t g)) = rotationSpeed t * 0.96 ^ n"
proof (induction n)
  case 0
  show ?case by simp
next
  case (Suc n)
  have "particles (fst (updates lib n t g)) \<noteq> None"
    using well_formed_updates[OF Suc.prems, of lib n g] by (simp add: well_formed_def)
  then have "rotationSpeed (fst (updates lib (Suc n) t g)) =
      rotationSpeed (fst (updates lib n t g)) * 0.96"
    unfolding updates_Suc by (rule update_rotationSpeed)
  also have "\<dots> = rotationSpeed t * 0.96 ^ Suc n"
    by (simp only: Suc.IH[OF Suc.prems] power_Suc mult.assoc mult.commute[of "0.96 ^ n"])
  finally show ?case .
qed

lemma blend_arith:
  fixes a b q :: real
  shows "(b - (b - a) * q) + (b - (b - (b - a) * q)) * 0.06 = b - (b - a) * (0.94 * q)"
  by (simp add: field_simps)

lemma updates_position:
  assumes wf: "well_formed t" and i: "i < treeCount t * 3"
  shows "treePositions (fst (updates lib n t g)) ! i =
    treeTargetPositions t ! i - (treeTargetPositions t ! i - treePositions t ! i) * 0.94 ^ n"
proof (induction n)
  case 0
  show ?case by simp
next
  case (Suc n)
  let ?s = "fst (updates lib n t g)"
  have wfs: "well_formed ?s"
    by (rule well_formed_updates[OF wf])
  have len: "treeCount ?s * 3 \<le> length (treePositions ?s)"
    using wfs by (simp add: well_formed_def)
  have i': "i < treeCount ?s * 3"
    using i by (simp only: updates_treeCount)
  have "treePositions (fst (updates lib (Suc n) t g)) ! i =
      treePositions ?s ! i + (treeTargetPositions ?s ! i - treePositions ?s ! i) * 0.06"
    using i' by (simp only: updates_Suc update_treePositions nth_blended[OF len] if_True)
  also have "\<dots> = treeTargetPositions t ! i
      - (treeTargetPositions t ! i - treePositions t ! i) * 0.94 ^ Suc n"
    by (simp only: Suc.IH updates_treeTargetPositions blend_arith power_Suc)
  finally show ?case .
qed

subsection \<open>Arithmetic of the decay\<close>

lemma well_formed_example: "well_formed example_tree"
  by (simp add: well_formed_def example_tree_def)

lemma decay_limit:
  fixes a b q :: real
  assumes "0 \<le> q" and "q < 1"
  shows "(\<lambda>n. b - a * q ^ n) \<longlonglongrightarrow> b"
proof -
  have "(\<lambda>n. q ^ n) \<longlonglongrightarrow> 0"
    using assms by (rule LIMSEQ_realpow_zero)
  then have "(\<lambda>n. a * q ^ n) \<longlonglongrightarrow> a * 0"
    by (rule tendsto_mult_left)
  then have "(\<lambda>n. b - a * q ^ n) \<longlonglongrightarrow> b - a * 0"
    by (rule tendsto_diff[OF tendsto_const])
  then show ?thesis by simp
qed

lemma decay_step:
  fixes b d :: real
  assumes "0 < d"
  shows "b - d < b - 0.94 * d \<and> b - 0.94 * d < b"
  using assms by simp

lemma well_formed_rotate: "well_formed (rotate_tree x t) = well_formed t"
  by (simp add: well_formed_def rotate_tree_def)

lemma power_decay_abs:
  fixes a :: real
  shows "\<bar>a * 0.96 ^ Suc n\<bar> \<le> \<bar>a * 0.96 ^ n\<bar>"
proof -
  have "\<bar>a * 0.96 ^ Suc n\<bar> = 0.96 * \<bar>a * 0.96 ^ n\<bar>"
    by (simp add: abs_mult)
  also have "\<dots> \<le> \<bar>a * 0.96 ^ n\<bar>"
    by (simp add: mult_left_le_one_le)
  finally show ?thesis .
qed

lemma power_decay_limit:
  fixes a :: real
  shows "(\<lambda>n. a * 0.96 ^ n) \<longlonglongrightarrow> 0"
  using decay_limit[of "0.96" 0 "- a"] by simp

subsection \<open>\<^verbatim>\<open>form\<close> and \<^verbatim>\<open>disperse\<close> in closed form\<close>

lemma form_eq:
  "form t g =
    (if state t = Formed then (t, g)
     else (t\<lparr>state := Formed, treeTargetPositions := banyan_targets t g (treeCount t)\<rparr>,
           after_draws (4 * treeCount t) g))"
proof -
  have "getBanyanPosition (t\<lparr>state := Formed\<rparr>) = getBanyanPosition t"
    by (rule ext, rule ext, rule getBanyanPosition_treeCount) simp
  then have "banyan_targets (t\<lparr>state := Formed\<rparr>) g n = banyan_targets t g n" for n
    by (induction n) simp_all
  then show ?thesis
    by (simp add: form_def form_loop)
qed

lemma disperse_eq:
  "disperse t g =
    (if state t = Dispersed then (t, g)
     else (t\<lparr>state := Dispersed,
             treeTargetPositions := dispersed_targets (treeTargetPositions t) g (treeCount t)\<rparr>,
           after_draws (3 * treeCount t) g))"
  by (simp add: disperse_def disperse_loop)

lemma getBanyanPosition_example:
  "fst (fst (getBanyanPosition example_tree 0 zero_rng)) = (1.8, - 3, 0)"
  by (simp add: getBanyanPosition_def example_tree_def zero_rng_def random_def Let_def)

lemma unit_range_zero_rng: "unit_range zero_rng"
  by (simp add: unit_range_def zero_rng_def)

subsection \<open>Construction\<close>

lemma initParticles_step_inv:
  "init_inv t0 (fst s) \<Longrightarrow> init_inv t0 (fst (initParticles_step lib i s))"
  by (cases s)
     (auto simp add: initParticles_step_def init_inv_def length_store3 Let_def case_prod_beta)

lemma initParticles_loop_inv:
  "init_inv t0 (fst s) \<Longrightarrow> init_inv t0 (fst (fold (initParticles_step lib) xs s))"
  by (induction xs arbitrary: s) (simp_all add: initParticles_step_inv)

lemma initParticles_inv:
  assumes "treePositions t = treeTargetPositions t"
  shows "init_inv t (fst (initParticles lib t g))"
    and "particles (fst (initParticles lib t g)) = Some \<lparr>rotation_y = 0\<rparr>"
proof -
  let ?s = "fold (initParticles_step lib) [0..<treeCount t] (t, new_Color lib, g)"
  have "init_inv t (fst (t, new_Color lib, g))"
    using assms by (simp add: init_inv_def)
  then have "init_inv t (fst ?s)"
    by (rule initParticles_loop_inv)
  then show "init_inv t (fst (initParticles lib t g))"
    by (auto simp add: initParticles_def init_inv_def Let_def case_prod_beta)
  show "particles (fst (initParticles lib t g)) = Some \<lparr>rotation_y = 0\<rparr>"
    by (simp add: initParticles_def Let_def case_prod_beta)
qed

lemma initMeteors_step_tree_part:
  "tree_part (fst (initMeteors_step lib i s)) = tree_part (fst s)"
  by (cases s) (simp add: initMeteors_step_def tree_part_def Let_def case_prod_beta)

lemma initMeteors_step_length:
  "length (meteorData (fst (initMeteors_step lib i s))) = Suc (length (meteorData (fst s)))"
  by (cases s) (simp add: initMeteors_step_def Let_def case_prod_beta)

lemma initMeteors_loop_tree_part:
  "tree_part (fst (fold (initMeteors_step lib) xs s)) = tree_part (fst s)"
  by (induction xs arbitrary: s) (simp_all add: initMeteors_step_tree_part)

lemma initMeteors_loop_length:
  "length (meteorData (fst (fold (initMeteors_step lib) xs s))) =
     length (meteorData (fst s)) + length xs"
  by (induction xs arbitrary: s) (simp_all add: initMeteors_step_length)

lemma initMeteors_loop_field:
  assumes "\<And>s. f (tree_part s) = f s"
  shows "f (fst (fold (initMeteors_step lib) xs s)) = f (fst s)"
proof -
  have "f (fst (fold (initMeteors_step lib) xs s)) =
      f (tree_part (fst (fold (initMeteors_step lib) xs s)))"
    by (simp only: assms)
  also have "\<dots> = f (tree_part (fst s))"
    by (simp only: initMeteors_loop_tree_part)
  also have "\<dots> = f (fst s)"
    by (simp only: assms)
  finally show ?thesis .
qed

lemma initMeteors_fields:
  "state (fst (initMeteors lib t g)) = state t"
  "treePositions (fst (initMeteors lib t g)) = treePositions t"
  "treeTargetPositions (fst (initMeteors lib t g)) = treeTargetPositions t"
  "treeCount (fst (initMeteors lib t g)) = treeCount t"
  "meteorCount (fst (initMeteors lib t g)) = meteorCount t"
  "rotationSpeed (fst (initMeteors lib t g)) = rotationSpeed t"
  "particles (fst (initMeteors lib t g)) = particles t"
  "meteors (fst (initMeteors lib t g)) = Some \<lparr>rotation_y = 0\<rparr>"
  "length (meteorData (fst (initMeteors lib t g))) = meteorCount t"
  by (simp_all add: initMeteors_def Let_def case_prod_beta initMeteors_loop_length
      initMeteors_loop_field[of state] initMeteors_loop_field[of treePositions]
      initMeteors_loop_field[of treeTargetPositions] initMeteors_loop_field[of treeCount]
      initMeteors_loop_field[of meteorCount] initMeteors_loop_field[of rotationSpeed]
      initMeteors_loop_field[of particles] tree_part_def)

lemma new_ParticleTree_facts:
  "state (fst (new_ParticleTree lib g)) = Formed"
  "treePositions (fst (new_ParticleTree lib g)) = treeTargetPositions (fst (new_ParticleTree lib g))"
  "treeCount (fst (new_ParticleTree lib g)) = 20000"
  "length (treePositions (fst (new_ParticleTree lib g))) = 60000"
  "rotationSpeed (fst (new_ParticleTree lib g)) = 0"
  "well_formed (fst (new_ParticleTree lib g))"
proof -
  let ?t0 = "\<lparr>particles = None, meteors = None,
              treeCount = 20000, meteorCount = 100,
              treePositions = replicate (20000 * 3) 0,
              treeTargetPositions = replicate (20000 * 3) 0,
              treeColors = replicate (20000 * 3) 0,
              treeSizes = replicate 20000 0,
              treeOpacities = replicate 20000 0,
              state = Formed, rotationSpeed = 0, uTime = 0,
              meteorData = [], meteorPositions = [], meteorColors = []\<rparr>"
  let ?t1 = "fst (initParticles lib ?t0 g)"
  let ?g1 = "snd (initParticles lib ?t0 g)"
  have new: "new_ParticleTree lib g = initMeteors lib ?t1 ?g1"
    by (simp only: new_ParticleTree_def Let_def case_prod_beta)
  have eq: "treePositions ?t0 = treeTargetPositions ?t0"
    by simp
  have inv: "init_inv ?t0 ?t1"
    using eq by (rule initParticles_inv(1))
  have par: "particles ?t1 = Some \<lparr>rotation_y = 0\<rparr>"
    using eq by (rule initParticles_inv(2))
  from inv have pt: "treePositions ?t1 = treeTargetPositions ?t1"
    by (simp add: init_inv_def)
  from inv have f: "length (treePositions ?t1) = 60000" "state ?t1 = Formed"
    "treeCount ?t1 = 20000" "meteorCount ?t1 = 100" "rotationSpeed ?t1 = 0"
    by (auto simp add: init_inv_def)
  have f': "length (treeTargetPositions ?t1) = 60000"
    using f(1) by (simp only: pt)
  show "state (fst (new_ParticleTree lib g)) = Formed"
    by (simp only: new initMeteors_fields f)
  show "treePositions (fst (new_ParticleTree lib g)) =
      treeTargetPositions (fst (new_ParticleTree lib g))"
    by (simp only: new initMeteors_fields pt)
  show "treeCount (fst (new_ParticleTree lib g)) = 20000"
    by (simp only: new initMeteors_fields f)
  show "length (treePositions (fst (new_ParticleTree lib g))) = 60000"
    by (simp only: new initMeteors_fields f)
  show "rotationSpeed (fst (new_ParticleTree lib g)) = 0"
    by (simp only: new initMeteors_fields f)
  show "well_formed (fst (new_ParticleTree lib g))"
    unfolding well_formed_def new
    by (simp only: initMeteors_fields f f' par) simp
qed

subsection \<open>Calls without \<^verbatim>\<open>disperse\<close>\<close>

lemma run_command_keeps_formed:
  assumes "state t = Formed" and "c \<noteq> Disperse"
  shows "state (fst (run_command lib c (t, g))) = Formed"
    and "treeTargetPositions (fst (run_command lib c (t, g))) = treeTargetPositions t"
  using assms
  by (cases c; simp add: run_command_def form_eq rotate_tree_def update_state
      update_treeTargetPositions)+

lemma run_commands_keep_formed:
  "state (fst s) = Formed \<Longrightarrow> Disperse \<notin> set cs \<Longrightarrow>
   state (fst (fold (run_command lib) cs s)) = Formed \<and>
   treeTargetPositions (fst (fold (run_command lib) cs s)) = treeTargetPositions (fst s)"
proof (induction cs arbitrary: s)
  case Nil
  then show ?case by simp
next
  case (Cons c cs)
  obtain t g where s: "s = (t, g)"
    by (cases s)
  have c: "c \<noteq> Disperse" and cs: "Disperse \<notin> set cs"
    using Cons.prems(2) by auto
  have st: "state t = Formed"
    using Cons.prems(1) s by simp
  have a: "state (fst (run_command lib c s)) = Formed"
    unfolding s using st c by (rule run_command_keeps_formed(1))
  have b: "treeTargetPositions (fst (run_command lib c s)) = treeTargetPositions (fst s)"
    unfolding s using st c by (simp add: run_command_keeps_formed(2))
  from Cons.IH[OF a cs] b show ?case
    by simp
qed

subsection \<open>The gesture controller\<close>

lemma processGestures_eq:
  "20 < length landmarks \<Longrightarrow>
   processGestures ls landmarks w =
     Inr (emit ls ''move'' (Some (fst (landmarks ! 0)))
           (if avgDist landmarks < 0.2 then emit ls ''fist'' None w
            else if avgDist landmarks > 0.3 then emit ls ''open'' None w
            else w))"
  by (simp add: processGestures_def avgDist_def tip_distance_def Let_def case_prod_beta)

lemma log_listeners_emit:
  "emit log_listeners ''fist'' d w = w @ [(''fist'', d)]"
  "emit log_listeners ''open'' d w = w @ [(''open'', d)]"
  "emit log_listeners ''move'' d w = w @ [(''move'', d)]"
  by (simp_all add: emit_def log_listeners_def on_def new_listeners_def)

lemma main_listeners_emit:
  "emit main_listeners ''fist'' d (t, g) = form t g"
  "emit main_listeners ''open'' d (t, g) = disperse t g"
  "emit main_listeners ''move'' (Some x) (t, g) = (rotate_tree x t, g)"
  by (simp_all add: emit_def main_listeners_def on_def new_listeners_def)

lemma avgDist_right_hand: "avgDist right_hand = 0"
  by (simp add: avgDist_def tip_distance_def right_hand_def)

lemma new_listeners_emit:
  "emit new_listeners ''fist'' d w = w"
  "emit new_listeners ''open'' d w = w"
  "emit new_listeners ''move'' d w = w"
  by (simp_all add: emit_def new_listeners_def)

subsection \<open>The model run on the concrete tree\<close>

lemma upt_3: "[0..<3] = [0, 1, 2]"
  by (simp add: upt_rec)

lemma update_example:
  "fst (update example_lib example_tree zero_rng) =
     example_tree\<lparr>uTime := 0.01, treePositions := [0.6, 0.6, 0.6],
       meteorData := [\<lparr>pos = (- 0.3, - 0.05, 0), velocity = (- 0.3, - 0.05, 0),
                       length_m = 3, color = (1, 1, 1)\<rparr>],
       meteorPositions := [- 0.3, - 0.05, 0, 0.6, 0.1, 0],
       meteorColors := [1, 1, 1, 0, 0, 0]\<rparr>"
  by (simp add: update_def blend_step_def meteor_step_def vadd_def example_tree_def
      zero_rng_def Let_def upt_3)

lemma form_example:
  "form example_tree zero_rng =
     (example_tree\<lparr>state := Formed, treeTargetPositions := [1.8, - 3, 0]\<rparr>, zero_rng)"
  by (simp add: form_def form_step_def getBanyanPosition_def store3_def random_def
      example_tree_def zero_rng_def Let_def)

lemma disperse_example:
  "disperse (example_tree\<lparr>state := Formed\<rparr>) zero_rng =
     (example_tree\<lparr>state := Dispersed, treeTargetPositions := [0, 0, 0]\<rparr>, zero_rng)"
  by (simp add: disperse_def disperse_step_def getDispersedPosition_def store3_def random_def
      example_tree_def zero_rng_def Let_def)

subsection \<open>Every reachable tree is well formed\<close>

lemma well_formed_form: "well_formed t \<Longrightarrow> well_formed (fst (form t g))"
  by (simp add: form_eq well_formed_def length_banyan_targets)

lemma well_formed_disperse: "well_formed t \<Longrightarrow> well_formed (fst (disperse t g))"
  by (simp add: disperse_eq well_formed_def length_dispersed_targets)

lemma well_formed_run_command:
  "well_formed (fst s) \<Longrightarrow> well_formed (fst (run_command lib c s))"
  by (cases s; cases c)
     (simp_all add: run_command_def well_formed_form well_formed_disperse
        well_formed_rotate well_formed_update)

lemma well_formed_reachable:
  "well_formed (fst (fold (run_command lib) cs (new_ParticleTree lib g)))"
proof -
  have "well_formed (fst s) \<Longrightarrow> well_formed (fst (fold (run_command lib) cs s))" for s
    by (induction cs arbitrary: s) (simp_all add: well_formed_run_command)
  then show ?thesis
    by (simp add: new_ParticleTree_facts(6))
qed

section \<open>The claims\<close>

text \<open>
  C1. For every index \<open>i\<close> the region tag \<^verbatim>\<open>getBanyanPosition(i)\<close> returns is fixed by
  the comparison of \<open>i\<close> with \<open>0.25 * N\<close> and \<open>0.35 * N\<close> alone: below \<open>0.25 * N\<close> it is
  the trunk, from there up to (but below) \<open>0.35 * N\<close> the root, and the leaves for the
  rest; two random sources give the same tag.
\<close>

theorem region_by_index_band:
  "snd (fst (getBanyanPosition t i g)) =
     (if real i < 0.25 * real (treeCount t) then Trunk
      else if real i < 0.35 * real (treeCount t) then Root
      else Leaves)
   \<and> snd (fst (getBanyanPosition t i g)) = snd (fst (getBanyanPosition t i g'))"
  by (simp add: getBanyanPosition_def random_def Let_def)

text \<open>
  C2. One \<^verbatim>\<open>update()\<close> replaces every entry of the position array by
  \<open>current + (target - current) * 0.06\<close>, so \<open>0\<close> heading for \<open>10\<close> becomes \<open>0.6\<close>.
  Under repeated \<^verbatim>\<open>update()\<close> calls the target stays as it is, an entry below its
  target increases strictly and stays below the target, and it converges to the target.
\<close>

theorem update_exponential_blend:
  assumes "well_formed t" and "i < treeCount t * 3"
  shows
    "treePositions (fst (update lib t g)) ! i =
       treePositions t ! i + (treeTargetPositions t ! i - treePositions t ! i) * 0.06
     \<and> (treePositions t ! i = 0 \<and> treeTargetPositions t ! i = 10 \<longrightarrow>
          treePositions (fst (update lib t g)) ! i = 0.6)
     \<and> treeTargetPositions (fst (updates lib n t g)) = treeTargetPositions t
     \<and> position_after lib n t g i =
         treeTargetPositions t ! i - (treeTargetPositions t ! i - treePositions t ! i) * 0.94 ^ n
     \<and> (treePositions t ! i < treeTargetPositions t ! i \<longrightarrow>
          position_after lib n t g i < position_after lib (Suc n) t g i \<and>
          position_after lib (Suc n) t g i < treeTargetPositions t ! i)
     \<and> (\<lambda>k. position_after lib k t g i) \<longlonglongrightarrow> treeTargetPositions t ! i"
proof -
  let ?c = "treePositions t ! i" and ?b = "treeTargetPositions t ! i"
  have len: "treeCount t * 3 \<le> length (treePositions t)"
    using assms(1) by (simp add: well_formed_def)
  have one: "treePositions (fst (update lib t g)) ! i = ?c + (?b - ?c) * 0.06"
    using assms(2) by (simp only: update_treePositions nth_blended[OF len] if_True)
  have closed: "position_after lib k t g i = ?b - (?b - ?c) * 0.94 ^ k" for k
    unfolding position_after_def by (rule updates_position[OF assms])
  have mono: "position_after lib n t g i < position_after lib (Suc n) t g i \<and>
      position_after lib (Suc n) t g i < ?b" if lt: "?c < ?b"
  proof -
    have pos: "0 < (?b - ?c) * 0.94 ^ n"
      using lt by simp
    have "(?b - ?c) * 0.94 ^ Suc n = 0.94 * ((?b - ?c) * 0.94 ^ n)"
      by simp
    with decay_step[OF pos, of ?b] show ?thesis
      by (simp only: closed)
  qed
  have lim: "(\<lambda>k. position_after lib k t g i) \<longlonglongrightarrow> ?b"
    by (simp only: closed) (rule decay_limit, simp_all)
  from one closed mono lim show ?thesis
    by (simp add: updates_treeTargetPositions)
qed

theorem update_exponential_blend_witness:
  "well_formed example_tree \<and> (0::nat) < treeCount example_tree * 3
   \<and> treePositions (fst (update example_lib example_tree zero_rng)) ! 0 = 0.6
   \<and> position_after example_lib 2 example_tree zero_rng 0 = 1.164
   \<and> position_after example_lib 2 example_tree zero_rng 0
       < position_after example_lib (Suc 2) example_tree zero_rng 0
   \<and> position_after example_lib (Suc 2) example_tree zero_rng 0 < 10"
proof -
  have wf: "well_formed example_tree"
    by (simp add: well_formed_def example_tree_def)
  have i: "(0::nat) < treeCount example_tree * 3"
    by (simp add: example_tree_def)
  show ?thesis
    using update_exponential_blend[OF wf i, of example_lib zero_rng 2] wf i
    by (simp add: example_tree_def power2_eq_square)
qed

text \<open>
  C3. \<^verbatim>\<open>rotate(x)\<close> changes the rotation speed and nothing else, and sets it to
  \<open>(x - 0.5) * 0.1\<close> whatever the speed was before: \<open>0\<close> at \<open>x = 0.5\<close>, \<open>0.1 / 2\<close> at
  \<open>x = 1\<close>, \<open>- (0.1 / 2)\<close> at \<open>x = 0\<close>, and these two are the extremes over \<open>[0, 1]\<close>.
\<close>

theorem rotate_overwrites_speed:
  "rotate_tree x t = t\<lparr>rotationSpeed := (x - 0.5) * 0.1\<rparr>
   \<and> rotationSpeed (rotate_tree x (t\<lparr>rotationSpeed := v\<rparr>)) = (x - 0.5) * 0.1
   \<and> rotationSpeed (rotate_tree 0.5 t) = 0
   \<and> rotationSpeed (rotate_tree 1.0 t) = 0.1 / 2
   \<and> rotationSpeed (rotate_tree 0.0 t) = - (0.1 / 2)
   \<and> (0 \<le> x \<and> x \<le> 1 \<longrightarrow>
        rotationSpeed (rotate_tree 0.0 t) \<le> rotationSpeed (rotate_tree x t) \<and>
        rotationSpeed (rotate_tree x t) \<le> rotationSpeed (rotate_tree 1.0 t))"
  by (simp add: rotate_tree_def Let_def)

theorem rotate_overwrites_speed_witness:
  "(0::real) \<le> 0.75 \<and> (0.75::real) \<le> 1
   \<and> rotationSpeed (rotate_tree 0.75 (example_tree\<lparr>rotationSpeed := 7\<rparr>)) = 0.025
   \<and> rotationSpeed (rotate_tree 0.0 example_tree) \<le> rotationSpeed (rotate_tree 0.75 example_tree)
   \<and> rotationSpeed (rotate_tree 0.75 example_tree) \<le> rotationSpeed (rotate_tree 1.0 example_tree)"
  using rotate_overwrites_speed[of "0.75" example_tree 7]
  by (simp add: example_tree_def)

text \<open>
  C4, as the code has it. \<^verbatim>\<open>rotate(x)\<close> applies no clamp: for every \<open>x\<close> it returns (the
  model is total) with the speed \<open>(x - 0.5) * 0.1\<close>; the speed is within \<open>0.1 / 2\<close> in
  absolute value exactly when \<open>x\<close> lies in \<open>[0, 1]\<close>, and two inputs give the same speed
  only when they are equal.
\<close>

theorem rotate_does_not_clamp:
  "rotationSpeed (rotate_tree x t) = (x - 0.5) * 0.1
   \<and> (\<bar>rotationSpeed (rotate_tree x t)\<bar> \<le> 0.1 / 2) = (0 \<le> x \<and> x \<le> 1)
   \<and> (rotationSpeed (rotate_tree x t) = rotationSpeed (rotate_tree y t)) = (x = y)"
proof -
  have "(\<bar>(x - 0.5) * 0.1\<bar> \<le> 0.1 / 2) = (0 \<le> x \<and> x \<le> 1)"
    by (simp add: abs_if)
  then show ?thesis
    by (simp add: rotate_tree_def Let_def)
qed

theorem rotate_does_not_clamp_witness:
  "rotationSpeed (rotate_tree (- 1) example_tree) = - 0.15
   \<and> \<not> \<bar>rotationSpeed (rotate_tree (- 1) example_tree)\<bar> \<le> 0.1 / 2"
  using rotate_does_not_clamp[of "- 1" example_tree 0]
  by simp

text \<open>
  C4, as stated, fails: \<^verbatim>\<open>rotate(2)\<close> does not give the speed of \<^verbatim>\<open>rotate(1)\<close>, the
  nearest endpoint, and its speed \<open>0.15\<close> exceeds \<open>0.1 / 2\<close>.
\<close>

theorem rotate_clamp_counterexample:
  "rotationSpeed (rotate_tree 2 example_tree) \<noteq> rotationSpeed (rotate_tree 1 example_tree)
   \<and> rotationSpeed (rotate_tree 2 example_tree) = 0.15
   \<and> \<bar>rotationSpeed (rotate_tree 2 example_tree)\<bar> > 0.1 / 2"
  by (simp add: rotate_tree_def Let_def)

text \<open>
  C5. \<^verbatim>\<open>form()\<close> on a formed tree and \<^verbatim>\<open>disperse()\<close> on a dispersed tree change nothing
  (no field of the tree, and no random value is drawn). \<^verbatim>\<open>form()\<close> on a dispersed tree
  sets the state to formed and stores, for every index \<open>i\<close> below \<open>N\<close>, the position that
  \<^verbatim>\<open>getBanyanPosition(i)\<close> makes from four random values of its own; a second \<^verbatim>\<open>form()\<close>
  then changes nothing.
\<close>

theorem form_disperse_idempotent:
  "(state t = Formed \<longrightarrow> form t g = (t, g))
   \<and> (state t = Dispersed \<longrightarrow> disperse t g = (t, g))
   \<and> (state t = Dispersed \<and> length (treeTargetPositions t) = treeCount t * 3 \<longrightarrow>
        state (fst (form t g)) = Formed
        \<and> length (treeTargetPositions (fst (form t g))) = treeCount t * 3
        \<and> (\<forall>i<treeCount t.
              load3 (treeTargetPositions (fst (form t g))) i =
                fst (fst (getBanyanPosition t i (after_draws (4 * i) g))))
        \<and> snd (form t g) = after_draws (4 * treeCount t) g
        \<and> form (fst (form t g)) (snd (form t g)) = form t g)"
proof -
  have "load3 (banyan_targets t g (treeCount t)) i =
      fst (fst (getBanyanPosition t i (after_draws (4 * i) g)))"
    if "length (treeTargetPositions t) = treeCount t * 3" and "i < treeCount t" for i
    using that by (intro load3_banyan_targets) simp_all
  then show ?thesis
    by (simp add: form_eq disperse_eq length_banyan_targets)
qed

theorem form_disperse_idempotent_witness:
  "state example_tree = Dispersed
   \<and> length (treeTargetPositions example_tree) = treeCount example_tree * 3
   \<and> disperse example_tree zero_rng = (example_tree, zero_rng)
   \<and> state (fst (form example_tree zero_rng)) = Formed
   \<and> load3 (treeTargetPositions (fst (form example_tree zero_rng))) 0 = (1.8, - 3, 0)
   \<and> form (fst (form example_tree zero_rng)) (snd (form example_tree zero_rng))
       = form example_tree zero_rng"
proof -
  have s: "state example_tree = Dispersed"
    and l: "length (treeTargetPositions example_tree) = treeCount example_tree * 3"
    and n: "(0::nat) < treeCount example_tree"
    by (simp_all add: example_tree_def)
  note th = form_disperse_idempotent[of example_tree zero_rng]
  from th s have d: "disperse example_tree zero_rng = (example_tree, zero_rng)"
    by blast
  from th s l have f: "state (fst (form example_tree zero_rng)) = Formed"
    by blast
  from th s l have "\<forall>i<treeCount example_tree.
      load3 (treeTargetPositions (fst (form example_tree zero_rng))) i =
        fst (fst (getBanyanPosition example_tree i (after_draws (4 * i) zero_rng)))"
    by blast
  with n have "load3 (treeTargetPositions (fst (form example_tree zero_rng))) 0 =
      fst (fst (getBanyanPosition example_tree 0 (after_draws (4 * 0) zero_rng)))"
    by blast
  then have v: "load3 (treeTargetPositions (fst (form example_tree zero_rng))) 0 = (1.8, - 3, 0)"
    by (simp only: mult_0_right after_draws_0 getBanyanPosition_example)
  from th s l have again: "form (fst (form example_tree zero_rng)) (snd (form example_tree zero_rng))
      = form example_tree zero_rng"
    by blast
  from s l d f v again show ?thesis
    by blast
qed

text \<open>
  C6. \<^verbatim>\<open>form()\<close> and \<^verbatim>\<open>disperse()\<close> leave every field but the state and the target array
  as it was, in particular the positions, colours, sizes and opacities; \<^verbatim>\<open>rotate(x)\<close> and
  \<^verbatim>\<open>update()\<close> leave the colours, sizes and opacities as they were.
\<close>

theorem commands_frame:
  "fst (form t g) = t\<lparr>state := state (fst (form t g)),
                      treeTargetPositions := treeTargetPositions (fst (form t g))\<rparr>
   \<and> fst (disperse t g) = t\<lparr>state := state (fst (disperse t g)),
                              treeTargetPositions := treeTargetPositions (fst (disperse t g))\<rparr>
   \<and> treePositions (fst (form t g)) = treePositions t
   \<and> treeColors (fst (form t g)) = treeColors t
   \<and> treeSizes (fst (form t g)) = treeSizes t
   \<and> treeOpacities (fst (form t g)) = treeOpacities t
   \<and> treePositions (fst (disperse t g)) = treePositions t
   \<and> treeColors (fst (disperse t g)) = treeColors t
   \<and> treeSizes (fst (disperse t g)) = treeSizes t
   \<and> treeOpacities (fst (disperse t g)) = treeOpacities t
   \<and> treeColors (rotate_tree x t) = treeColors t
   \<and> treeSizes (rotate_tree x t) = treeSizes t
   \<and> treeOpacities (rotate_tree x t) = treeOpacities t
   \<and> treeColors (fst (update lib t g)) = treeColors t
   \<and> treeSizes (fst (update lib t g)) = treeSizes t
   \<and> treeOpacities (fst (update lib t g)) = treeOpacities t"
  by (simp add: form_eq disperse_eq rotate_tree_def
      update_treeColors update_treeSizes update_treeOpacities)

theorem commands_frame_witness:
  "treePositions (fst (form example_tree zero_rng)) = [0, 0, 0]
   \<and> treeColors (fst (form example_tree zero_rng)) = [1, 1, 1]
   \<and> treeSizes (fst (update example_lib example_tree zero_rng)) = [1]
   \<and> treeOpacities (fst (disperse (example_tree\<lparr>state := Formed\<rparr>) zero_rng)) = [1]"
  using commands_frame[of example_tree zero_rng 0 example_lib]
    commands_frame[of "example_tree\<lparr>state := Formed\<rparr>" zero_rng 0 example_lib]
  by (simp add: example_tree_def)

text \<open>
  C7. \<^verbatim>\<open>disperse()\<close> on a formed tree sets the state to dispersed and gives particle
  \<open>i\<close> the target that \<^verbatim>\<open>getDispersedPosition\<close> makes from three random values \<open>u\<close>, \<open>v\<close>,
  \<open>w\<close> of its own: radius \<open>r = 10 * cbrt u\<close>, azimuth \<open>v * 2 * pi\<close> in \<open>[0, 2 * pi)\<close>, polar
  angle \<open>arccos (2 * w - 1)\<close> with \<open>2 * w - 1\<close> in \<open>[-1, 1)\<close>, turned into Cartesian
  coordinates. Its distance from the origin is \<open>r\<close>, which is below \<open>10\<close>. (That the three
  values are uniform is a property of \<^verbatim>\<open>Math.random()\<close>, outside the program.)
\<close>

theorem disperse_targets_in_ball:
  assumes "state t = Formed"
    and "length (treeTargetPositions t) = treeCount t * 3"
    and "unit_range g"
    and "i < treeCount t"
  shows
    "state (fst (disperse t g)) = Dispersed
     \<and> load3 (treeTargetPositions (fst (disperse t g))) i =
         (let u = g (3 * i); v = g (3 * i + 1); w = g (3 * i + 2);
              r = 10 * root 3 u; theta = v * 2 * pi; phi = arccos (2 * w - 1)
          in (r * sin phi * cos theta, r * sin phi * sin theta, r * cos phi))
     \<and> 0 \<le> g (3 * i + 1) * 2 * pi \<and> g (3 * i + 1) * 2 * pi < 2 * pi
     \<and> - 1 \<le> 2 * g (3 * i + 2) - 1 \<and> 2 * g (3 * i + 2) - 1 < 1
     \<and> (case load3 (treeTargetPositions (fst (disperse t g))) i of
          (x, y, z) \<Rightarrow> sqrt (x\<^sup>2 + y\<^sup>2 + z\<^sup>2) = 10 * root 3 (g (3 * i))
                      \<and> sqrt (x\<^sup>2 + y\<^sup>2 + z\<^sup>2) \<le> 10)"
proof -
  let ?h = "after_draws (3 * i) g"
  have st: "state (fst (disperse t g)) = Dispersed"
    by (simp add: disperse_eq)
  have "load3 (treeTargetPositions (fst (disperse t g))) i =
      load3 (dispersed_targets (treeTargetPositions t) g (treeCount t)) i"
    using assms(1) by (simp add: disperse_eq)
  also have "\<dots> = fst (getDispersedPosition ?h)"
    using assms(2,4) by (intro load3_dispersed_targets) simp_all
  finally have tgt: "load3 (treeTargetPositions (fst (disperse t g))) i =
      fst (getDispersedPosition ?h)" .
  have h: "?h 0 = g (3 * i)" "?h 1 = g (3 * i + 1)" "?h 2 = g (3 * i + 2)"
    by (simp_all add: after_draws_def add.commute)
  have u: "0 \<le> g (3 * i)" "g (3 * i) < 1"
    and v: "0 \<le> g (3 * i + 1)" "g (3 * i + 1) < 1"
    and w: "0 \<le> g (3 * i + 2)" "g (3 * i + 2) < 1"
    using assms(3) by (simp_all add: unit_range_def)
  have val: "load3 (treeTargetPositions (fst (disperse t g))) i =
      (10 * root 3 (g (3 * i)) * sin (arccos (2 * g (3 * i + 2) - 1)) * cos (g (3 * i + 1) * 2 * pi),
       10 * root 3 (g (3 * i)) * sin (arccos (2 * g (3 * i + 2) - 1)) * sin (g (3 * i + 1) * 2 * pi),
       10 * root 3 (g (3 * i)) * cos (arccos (2 * g (3 * i + 2) - 1)))"
    by (simp only: tgt getDispersedPosition_value h)
  have r: "0 \<le> 10 * root 3 (g (3 * i))" "10 * root 3 (g (3 * i)) < 10"
    using root3_unit[OF u] by simp_all
  have "(case load3 (treeTargetPositions (fst (disperse t g))) i of
          (x, y, z) \<Rightarrow> sqrt (x\<^sup>2 + y\<^sup>2 + z\<^sup>2)) = sqrt ((10 * root 3 (g (3 * i)))\<^sup>2)"
    by (simp only: val prod.case sphere_norm)
  also have "\<dots> = 10 * root 3 (g (3 * i))"
    using r(1) by (simp only: real_sqrt_abs abs_of_nonneg)
  finally have norm: "(case load3 (treeTargetPositions (fst (disperse t g))) i of
          (x, y, z) \<Rightarrow> sqrt (x\<^sup>2 + y\<^sup>2 + z\<^sup>2)) = 10 * root 3 (g (3 * i))" .
  have az: "0 \<le> g (3 * i + 1) * 2 * pi" "g (3 * i + 1) * 2 * pi < 2 * pi"
    using v by simp_all
  have po: "- 1 \<le> 2 * g (3 * i + 2) - 1" "2 * g (3 * i + 2) - 1 < 1"
    using w by simp_all
  from st val az po norm r(2) show ?thesis
    by (simp add: Let_def case_prod_beta)
qed

theorem disperse_targets_in_ball_witness:
  "state (example_tree\<lparr>state := Formed\<rparr>) = Formed
   \<and> length (treeTargetPositions (example_tree\<lparr>state := Formed\<rparr>))
       = treeCount (example_tree\<lparr>state := Formed\<rparr>) * 3
   \<and> unit_range zero_rng
   \<and> (0::nat) < treeCount (example_tree\<lparr>state := Formed\<rparr>)
   \<and> state (fst (disperse (example_tree\<lparr>state := Formed\<rparr>) zero_rng)) = Dispersed
   \<and> load3 (treeTargetPositions (fst (disperse (example_tree\<lparr>state := Formed\<rparr>) zero_rng))) 0
       = (0, 0, 0)"
proof -
  let ?t = "example_tree\<lparr>state := Formed\<rparr>"
  have a: "state ?t = Formed"
    and b: "length (treeTargetPositions ?t) = treeCount ?t * 3"
    and d: "(0::nat) < treeCount ?t"
    by (simp_all add: example_tree_def)
  note c = unit_range_zero_rng
  from disperse_targets_in_ball[OF a b c d] a b c d show ?thesis
    by (simp add: zero_rng_def)
qed

text \<open>
  C8. One \<^verbatim>\<open>update()\<close> adds the rotation speed it finds to \<^verbatim>\<open>rotation.y\<close> and then
  multiplies the speed by \<open>0.96\<close>. After \<^verbatim>\<open>rotate(x)\<close> and \<open>n\<close> frames the speed is
  \<open>(x - 0.5) * 0.1 * 0.96 ^ n\<close>: its sign is the sign it started with, its absolute value
  does not grow, and it tends to \<open>0\<close>.
\<close>

theorem rotation_damping:
  assumes "well_formed t" and "particles t = Some p"
  shows
    "particles (fst (update lib t g)) = Some (p\<lparr>rotation_y := rotation_y p + rotationSpeed t\<rparr>)
     \<and> rotationSpeed (fst (update lib t g)) = rotationSpeed t * 0.96
     \<and> speed_after lib n (rotate_tree x t) g = (x - 0.5) * 0.1 * 0.96 ^ n
     \<and> sgn (speed_after lib n (rotate_tree x t) g) = sgn (rotationSpeed (rotate_tree x t))
     \<and> \<bar>speed_after lib (Suc n) (rotate_tree x t) g\<bar> \<le> \<bar>speed_after lib n (rotate_tree x t) g\<bar>
     \<and> (\<lambda>k. speed_after lib k (rotate_tree x t) g) \<longlonglongrightarrow> 0"
proof -
  have wf: "well_formed (rotate_tree x t)"
    using assms(1) by (simp only: well_formed_rotate)
  have r0: "rotationSpeed (rotate_tree x t) = (x - 0.5) * 0.1"
    by (simp add: rotate_tree_def Let_def)
  have closed: "speed_after lib k (rotate_tree x t) g = (x - 0.5) * 0.1 * 0.96 ^ k" for k
    unfolding speed_after_def by (simp only: updates_rotationSpeed[OF wf] r0)
  have one: "particles (fst (update lib t g)) =
      Some (p\<lparr>rotation_y := rotation_y p + rotationSpeed t\<rparr>)"
    using assms(2) by (rule update_particles_Some)
  have two: "rotationSpeed (fst (update lib t g)) = rotationSpeed t * 0.96"
    using assms(2) by (intro update_rotationSpeed) simp
  have sg: "sgn (speed_after lib n (rotate_tree x t) g) = sgn (rotationSpeed (rotate_tree x t))"
    by (simp only: closed r0) (simp add: sgn_mult)
  have dec: "\<bar>speed_after lib (Suc n) (rotate_tree x t) g\<bar> \<le> \<bar>speed_after lib n (rotate_tree x t) g\<bar>"
    by (simp only: closed power_decay_abs)
  have lim: "(\<lambda>k. speed_after lib k (rotate_tree x t) g) \<longlonglongrightarrow> 0"
    by (simp only: closed power_decay_limit)
  from one two closed sg dec lim show ?thesis
    by simp
qed

theorem rotation_damping_witness:
  "well_formed example_tree \<and> particles example_tree = Some \<lparr>rotation_y = 0\<rparr>
   \<and> particles (fst (update example_lib (rotate_tree 1 example_tree) zero_rng))
       = Some \<lparr>rotation_y = 0.05\<rparr>
   \<and> rotationSpeed (fst (update example_lib (rotate_tree 1 example_tree) zero_rng)) = 0.048
   \<and> speed_after example_lib 2 (rotate_tree 1 example_tree) zero_rng = 0.04608"
proof -
  have wf: "well_formed (rotate_tree 1 example_tree)"
    by (simp add: well_formed_def example_tree_def rotate_tree_def)
  have p: "particles (rotate_tree 1 example_tree) = Some \<lparr>rotation_y = 0\<rparr>"
    by (simp add: example_tree_def rotate_tree_def)
  have r: "rotate_tree 1 (rotate_tree 1 example_tree) = rotate_tree 1 example_tree"
    by (simp add: rotate_tree_def)
  show ?thesis
    using rotation_damping[OF wf p, of example_lib zero_rng 2 1] well_formed_example
    by (simp add: r) (simp add: example_tree_def rotate_tree_def power2_eq_square)
qed

text \<open>
  C9. The tree the constructor returns is in state formed, holds 20000 particles, and
  its position array equals its target array, so every particle is at its target. A
  \<^verbatim>\<open>form()\<close> on it changes nothing, and as long as no \<^verbatim>\<open>disperse()\<close> is among the
  calls made (\<^verbatim>\<open>form\<close>, \<^verbatim>\<open>rotate\<close>, \<^verbatim>\<open>update\<close> in any order) the state stays formed and
  the targets stay those of construction: no new tree shape is sampled.
\<close>

theorem constructed_tree_formed:
  "state (fst (new_ParticleTree lib g)) = Formed
   \<and> treeCount (fst (new_ParticleTree lib g)) = 20000
   \<and> length (treePositions (fst (new_ParticleTree lib g))) = 60000
   \<and> treePositions (fst (new_ParticleTree lib g)) = treeTargetPositions (fst (new_ParticleTree lib g))
   \<and> (\<forall>i<20000. load3 (treePositions (fst (new_ParticleTree lib g))) i =
                   load3 (treeTargetPositions (fst (new_ParticleTree lib g))) i)
   \<and> form (fst (new_ParticleTree lib g)) (snd (new_ParticleTree lib g)) = new_ParticleTree lib g
   \<and> (Disperse \<notin> set cs \<longrightarrow>
        state (fst (fold (run_command lib) cs (new_ParticleTree lib g))) = Formed \<and>
        treeTargetPositions (fst (fold (run_command lib) cs (new_ParticleTree lib g))) =
          treeTargetPositions (fst (new_ParticleTree lib g)))"
proof -
  note f = new_ParticleTree_facts[of lib g]
  have "form (fst (new_ParticleTree lib g)) (snd (new_ParticleTree lib g)) = new_ParticleTree lib g"
    by (simp add: form_eq f(1))
  moreover have "load3 (treePositions (fst (new_ParticleTree lib g))) i =
      load3 (treeTargetPositions (fst (new_ParticleTree lib g))) i" for i
    using f(2) by simp
  moreover have "state (fst (fold (run_command lib) cs (new_ParticleTree lib g))) = Formed \<and>
      treeTargetPositions (fst (fold (run_command lib) cs (new_ParticleTree lib g))) =
        treeTargetPositions (fst (new_ParticleTree lib g))" if "Disperse \<notin> set cs"
    using f(1) that by (rule run_commands_keep_formed)
  ultimately show ?thesis
    using f(1,2,3,4) by blast
qed

theorem constructed_tree_formed_witness:
  "Disperse \<notin> set [Form, Rotate 1, Update, Form]
   \<and> state (fst (new_ParticleTree example_lib zero_rng)) = Formed
   \<and> load3 (treePositions (fst (new_ParticleTree example_lib zero_rng))) 7 =
       load3 (treeTargetPositions (fst (new_ParticleTree example_lib zero_rng))) 7
   \<and> treeTargetPositions (fst (fold (run_command example_lib) [Form, Rotate 1, Update, Form]
        (new_ParticleTree example_lib zero_rng))) =
       treeTargetPositions (fst (new_ParticleTree example_lib zero_rng))"
proof -
  have c: "Disperse \<notin> set [Form, Rotate 1, Update, Form]"
    by simp
  have i: "(7::nat) < 20000"
    by simp
  from constructed_tree_formed[of example_lib zero_rng "[Form, Rotate 1, Update, Form]"] c i
  show ?thesis
    by blast
qed

text \<open>
  C10, as the code has it. For a detected hand (21 landmarks) and whatever listeners are
  registered, \<^verbatim>\<open>processGestures\<close> emits \<^verbatim>\<open>fist\<close> when the average tip distance is below
  \<open>0.2\<close>, \<^verbatim>\<open>open\<close> when it is above \<open>0.3\<close>, nothing in between, and then in every case
  \<^verbatim>\<open>move\<close> with the wrist's \<open>x\<close>. Once the entry module has registered its callbacks, the
  tree's rotation speed is \<open>(x - 0.5) * 0.1\<close> after the call, whichever gesture fired, and
  the same holds for a turn of \<^verbatim>\<open>predictWebcam\<close> on a new frame whose first detected hand
  it is. On the frame that \<^verbatim>\<open>initialize()\<close> processes, before any callback is registered,
  the events reach no listener and the tree is left as it was.
\<close>

theorem move_emitted_on_every_hand_frame:
  assumes "20 < length landmarks"
  shows
    "processGestures ls landmarks w =
       Inr (emit ls ''move'' (Some (fst (landmarks ! 0)))
             (if avgDist landmarks < 0.2 then emit ls ''fist'' None w
              else if avgDist landmarks > 0.3 then emit ls ''open'' None w
              else w))
     \<and> processGestures log_listeners landmarks [] =
         Inr ((if avgDist landmarks < 0.2 then [(''fist'', None)]
               else if avgDist landmarks > 0.3 then [(''open'', None)]
               else [])
              @ [(''move'', Some (fst (landmarks ! 0)))])
     \<and> processGestures main_listeners landmarks (t, g) =
         (let (t1, g1) = (if avgDist landmarks < 0.2 then form t g
                          else if avgDist landmarks > 0.3 then disperse t g
                          else (t, g))
          in Inr (rotate_tree (fst (landmarks ! 0)) t1, g1))
     \<and> (\<exists>t' g'. processGestures main_listeners landmarks (t, g) = Inr (t', g')
                 \<and> rotationSpeed t' = (fst (landmarks ! 0) - 0.5) * 0.1)
     \<and> (lastVideoTime \<noteq> currentTime \<longrightarrow>
          (\<exists>t' g'. predictWebcam main_listeners currentTime (landmarks # others)
                      (lastVideoTime, (t, g)) = Inr (currentTime, (t', g'))
                   \<and> rotationSpeed t' = (fst (landmarks ! 0) - 0.5) * 0.1))
     \<and> processGestures new_listeners landmarks (t, g) = Inr (t, g)
     \<and> (currentTime \<noteq> - 1 \<longrightarrow>
          initialize currentTime (landmarks # others) (t, g) = Inr (currentTime, (t, g)))"
proof -
  let ?x = "fst (landmarks ! 0)"
  let ?w = "if avgDist landmarks < 0.2 then form t g
            else if avgDist landmarks > 0.3 then disperse t g
            else (t, g)"
  note gen = processGestures_eq[OF assms]
  have log: "processGestures log_listeners landmarks [] =
       Inr ((if avgDist landmarks < 0.2 then [(''fist'', None)]
             else if avgDist landmarks > 0.3 then [(''open'', None)]
             else [])
            @ [(''move'', Some ?x)])"
    by (simp add: gen log_listeners_emit)
  have "processGestures main_listeners landmarks (t, g) =
      Inr (emit main_listeners ''move'' (Some ?x) (fst ?w, snd ?w))"
    by (simp add: gen main_listeners_emit(1,2))
  then have main: "processGestures main_listeners landmarks (t, g) =
      Inr (rotate_tree ?x (fst ?w), snd ?w)"
    by (simp only: main_listeners_emit(3))
  then have main': "processGestures main_listeners landmarks (t, g) =
      (let (t1, g1) = ?w in Inr (rotate_tree ?x t1, g1))"
    by (simp add: case_prod_beta)
  have sp: "rotationSpeed (rotate_tree ?x (fst ?w)) = (?x - 0.5) * 0.1"
    by (simp add: rotate_tree_def Let_def)
  have frame: "predictWebcam main_listeners currentTime (landmarks # others)
      (lastVideoTime, (t, g)) = Inr (currentTime, (rotate_tree ?x (fst ?w), snd ?w))"
    if "lastVideoTime \<noteq> currentTime"
    using that by (simp add: predictWebcam_def main)
  have none: "processGestures new_listeners landmarks (t, g) = Inr (t, g)"
    by (simp add: gen new_listeners_emit)
  have first: "initialize currentTime (landmarks # others) (t, g) = Inr (currentTime, (t, g))"
    if "currentTime \<noteq> - 1"
    using that by (simp add: initialize_def predictWebcam_def none)
  have ex: "\<exists>t' g'. processGestures main_listeners landmarks (t, g) = Inr (t', g')
      \<and> rotationSpeed t' = (?x - 0.5) * 0.1"
    using main sp by blast
  have exf: "lastVideoTime \<noteq> currentTime \<longrightarrow>
      (\<exists>t' g'. predictWebcam main_listeners currentTime (landmarks # others)
                  (lastVideoTime, (t, g)) = Inr (currentTime, (t', g'))
               \<and> rotationSpeed t' = (?x - 0.5) * 0.1)"
    using frame sp by blast
  have fi: "currentTime \<noteq> - 1 \<longrightarrow>
      initialize currentTime (landmarks # others) (t, g) = Inr (currentTime, (t, g))"
    using first by blast
  show ?thesis
    by (intro conjI gen log main' ex exf none fi)
qed

theorem move_emitted_on_every_hand_frame_witness:
  "20 < length right_hand
   \<and> processGestures log_listeners right_hand [] =
       Inr [(''fist'', None), (''move'', Some 1)]
   \<and> rotationSpeed example_tree = 0
   \<and> (\<exists>t' g'. processGestures main_listeners right_hand (example_tree, zero_rng) = Inr (t', g')
               \<and> rotationSpeed t' = 0.05)
   \<and> (0::real) \<noteq> 1
   \<and> (\<exists>t' g'. predictWebcam main_listeners 1 [right_hand] (0, (example_tree, zero_rng))
                  = Inr (1, (t', g'))
               \<and> rotationSpeed t' = 0.05)
   \<and> (0::real) \<noteq> - 1
   \<and> initialize 0 [right_hand] (example_tree, zero_rng) = Inr (0, (example_tree, zero_rng))"
proof -
  have l: "20 < length right_hand"
    by (simp add: right_hand_def)
  have x: "fst (right_hand ! 0) = 1"
    by (simp add: right_hand_def)
  have s: "rotationSpeed example_tree = 0"
    by (simp add: example_tree_def)
  note th = move_emitted_on_every_hand_frame[OF l, where ls = log_listeners and w = "[]"
      and t = example_tree and g = zero_rng and others = "[]"]
  note th1 = th[where lastVideoTime = 0 and currentTime = 1]
  note th0 = th[where lastVideoTime = 0 and currentTime = 0]
  from th1[THEN conjunct2, THEN conjunct1]
  have a: "processGestures log_listeners right_hand [] =
       Inr [(''fist'', None), (''move'', Some 1)]"
    by (simp add: avgDist_right_hand x)
  from th1[THEN conjunct2, THEN conjunct2, THEN conjunct2, THEN conjunct1] have b:
    "\<exists>t' g'. processGestures main_listeners right_hand (example_tree, zero_rng) = Inr (t', g')
               \<and> rotationSpeed t' = 0.05"
    by (simp add: x)
  from th1[THEN conjunct2, THEN conjunct2, THEN conjunct2, THEN conjunct2, THEN conjunct1]
  have c:
    "\<exists>t' g'. predictWebcam main_listeners 1 [right_hand] (0, (example_tree, zero_rng))
                  = Inr (1, (t', g'))
               \<and> rotationSpeed t' = 0.05"
    by (simp add: x)
  from th0[THEN conjunct2, THEN conjunct2, THEN conjunct2, THEN conjunct2, THEN conjunct2,
      THEN conjunct2]
  have d:
    "initialize 0 [right_hand] (example_tree, zero_rng) = Inr (0, (example_tree, zero_rng))"
    by simp
  from l a s b c d show ?thesis
    by simp
qed

text \<open>
  C10, as stated, fails on the frame that \<^verbatim>\<open>initialize()\<close> processes: a fist at the right
  edge is detected (video time \<open>0\<close> is not \<open>-1\<close>), \<^verbatim>\<open>move\<close> is emitted with \<open>x = 1\<close>, and the
  tree, whose rotation speed is \<open>0\<close>, is left unchanged, where an overwrite would give the
  speed \<open>(1 - 0.5) * 0.1\<close>.
\<close>

theorem first_frame_counterexample:
  "20 < length right_hand
   \<and> initialize 0 [right_hand] (example_tree, zero_rng) = Inr (0, (example_tree, zero_rng))
   \<and> rotationSpeed example_tree \<noteq> (fst (right_hand ! 0) - 0.5) * 0.1"
  by (simp add: initialize_def predictWebcam_def processGestures_eq new_listeners_emit
      right_hand_def example_tree_def)

end
